theory Spec2Isabelle
  imports Complex_Main
begin

section \<open>Errors\<close>

text \<open>
  Every exception the module can raise is a value.  \<open>ValueError\<close> carries which message
  the source builds:
  \<^item> \<open>Unknown_pattern\<close>: \<^verbatim>\<open>ValueError('Unknown pattern')\<close> of \<open>get_date\<close>;
  \<^item> \<open>Strptime_failed\<close>: the \<^verbatim>\<open>ValueError\<close> that \<^verbatim>\<open>datetime.strptime\<close> raises;
  \<^item> \<open>Unknown_mode m MODES\<close>: \<^verbatim>\<open>f"Unknown mode '{mode}' (Must be one of {MODES})"\<close>;
  \<^item> \<open>Unknown_polarization p POLARIZATIONS\<close>:
    \<^verbatim>\<open>f"Unknown polarization '{p}' (Must be one of {POLARIZATIONS})"\<close>;
  \<^item> \<open>Unknown_orbit k ORBITS\<close>: \<^verbatim>\<open>f"Unknown orbit type '{orbit}' (Must be one of {ORBITS} where 0 -> ASCENDING, 1 -> DESCENDING)"\<close>;
  \<^item> \<open>Not_a_valid_Orbit v\<close>: the \<^verbatim>\<open>ValueError\<close> of the enumeration's lookup \<^verbatim>\<open>Orbit(v)\<close>;
  \<^item> \<open>Unknown_stats\<close>:
    \<^verbatim>\<open>'Unknown spatial aggregation function. Must be one of mean, median, max, or min'\<close>;
  \<^item> \<open>No_data_found\<close>:
    \<^verbatim>\<open>"No data found for these parameters. Please change the orbit type or the coordinates."\<close>.
  \<open>EEException\<close> is the platform's exception type, \<open>TypeError\<close> what a call with
  a missing argument raises, \<open>OtherException\<close> any exception of another type (a
  transport failure of the remote call, say).
\<close>

datatype message =
    Unknown_pattern
  | Strptime_failed
  | Unknown_mode string "string list"
  | Unknown_polarization string "string list"
  | Unknown_orbit int "string list"
  | Not_a_valid_Orbit int
  | Unknown_stats
  | No_data_found

datatype error =
    ValueError message
  | IndexError
  | KeyError string
  | EEException string
  | TypeError string
  | OtherException string

section \<open>Strings and character classes\<close>

text \<open>
  A Python string is a sequence of code points, and the functions of the \<open>re\<close> module
  count code points; a string is a list of them here.  \<open>ustr\<close> gives the string of an
  ASCII literal.
\<close>

type_synonym ustring = "nat list"

definition ustr :: "string \<Rightarrow> ustring" where
  "ustr s = map of_char s"

text \<open>
  The pattern of \<open>get_date\<close> is a \<^verbatim>\<open>str\<close> pattern compiled without \<^verbatim>\<open>re.ASCII\<close>, so
  \<^verbatim>\<open>\d\<close> is any decimal digit of Unicode and \<^verbatim>\<open>\w\<close> any alphanumeric character of
  Unicode or the underscore.  Below 128 the classes are those of ASCII.  From 128 up
  they are read from the Unicode database of the interpreter, which is a parameter:
  \<open>decimal c\<close> is the value, from 0 to 9, of the decimal digit \<open>c\<close> (\<open>None\<close> when \<open>c\<close> is
  not one), \<open>alnum c\<close> says that \<open>c\<close> is alphanumeric.
\<close>

record ucd =
  decimal :: "nat \<Rightarrow> nat option"
  alnum :: "nat \<Rightarrow> bool"

definition ascii_digit :: "nat \<Rightarrow> bool" where
  "ascii_digit c = (48 \<le> c \<and> c \<le> 57)"

definition ascii_word :: "nat \<Rightarrow> bool" where
  "ascii_word c = (ascii_digit c \<or> (65 \<le> c \<and> c \<le> 90) \<or> c = 95 \<or> (97 \<le> c \<and> c \<le> 122))"

definition is_digit :: "ucd \<Rightarrow> nat \<Rightarrow> bool" where
  "is_digit U c =
     (if c < 128 then ascii_digit c
      else (case decimal U c of None \<Rightarrow> False | Some v \<Rightarrow> v < 10))"

definition is_word :: "ucd \<Rightarrow> nat \<Rightarrow> bool" where
  "is_word U c = (if c < 128 then ascii_word c else alnum U c)"

section \<open>The regular expression of \<open>get_date\<close>\<close>

text \<open>
  The pattern uses literals, alternations of literals, \<^verbatim>\<open>\d{n}\<close>, \<^verbatim>\<open>\w{n}\<close> and named
  groups.
\<close>

datatype atom =
    Lit ustring
  | Alt "ustring list"
  | Digits nat
  | Words nat

datatype item =
    Plain atom
  | Named string atom

type_synonym groups = "(string \<times> ustring) list"

text \<open>
  \<open>match_lit l s\<close>: the literal \<open>l\<close> at the start of \<open>s\<close>; the result is what is left
  of \<open>s\<close>.
\<close>

fun match_lit :: "ustring \<Rightarrow> ustring \<Rightarrow> ustring option" where
  "match_lit [] s = Some s"
| "match_lit (c # l) [] = None"
| "match_lit (c # l) (d # s) = (if c = d then match_lit l s else None)"

text \<open>
  \<open>match_class P n s\<close>: \<open>n\<close> characters of the class \<open>P\<close> at the start of \<open>s\<close>.
\<close>

fun match_class :: "(nat \<Rightarrow> bool) \<Rightarrow> nat \<Rightarrow> ustring \<Rightarrow> (ustring \<times> ustring) option" where
  "match_class P 0 s = Some ([], s)"
| "match_class P (Suc n) [] = None"
| "match_class P (Suc n) (c # s) =
     (if P c then (case match_class P n s of
                     None \<Rightarrow> None
                   | Some (m, r) \<Rightarrow> Some (c # m, r))
      else None)"

text \<open>
  All the ways an atom matches at the start of \<open>s\<close>, as pairs (matched text, rest), in
  the order a backtracking matcher tries them: the alternatives of an alternation from
  left to right.
\<close>

fun match_alts :: "ustring list \<Rightarrow> ustring \<Rightarrow> (ustring \<times> ustring) list" where
  "match_alts [] s = []"
| "match_alts (l # ls) s =
     (case match_lit l s of None \<Rightarrow> [] | Some r \<Rightarrow> [(l, r)]) @ match_alts ls s"

fun match_atom :: "ucd \<Rightarrow> atom \<Rightarrow> ustring \<Rightarrow> (ustring \<times> ustring) list" where
  "match_atom U (Lit l) s = match_alts [l] s"
| "match_atom U (Alt ls) s = match_alts ls s"
| "match_atom U (Digits n) s =
     (case match_class (is_digit U) n s of None \<Rightarrow> [] | Some mr \<Rightarrow> [mr])"
| "match_atom U (Words n) s =
     (case match_class (is_word U) n s of None \<Rightarrow> [] | Some mr \<Rightarrow> [mr])"

text \<open>
  \<open>match_items U p s g\<close>: all the matches of the sequence \<open>p\<close> at the start of \<open>s\<close>,
  each with the named groups it captured (added to \<open>g\<close>) and the rest of \<open>s\<close>.
\<close>

fun match_items :: "ucd \<Rightarrow> item list \<Rightarrow> ustring \<Rightarrow> groups \<Rightarrow> (groups \<times> ustring) list" where
  "match_items U [] s g = [(g, s)]"
| "match_items U (Plain a # p) s g =
     concat (map (\<lambda>mr. match_items U p (snd mr) g) (match_atom U a s))"
| "match_items U (Named n a # p) s g =
     concat (map (\<lambda>mr. match_items U p (snd mr) (g @ [(n, fst mr)])) (match_atom U a s))"

definition match_at :: "ucd \<Rightarrow> item list \<Rightarrow> ustring \<Rightarrow> groups option" where
  "match_at U p s = (case match_items U p s [] of [] \<Rightarrow> None | (g, r) # _ \<Rightarrow> Some g)"

text \<open>
  \<^verbatim>\<open>p.search(s)\<close>: the match at the leftmost position of \<open>s\<close> that has one; \<open>None\<close> when
  no position has.
\<close>

fun search :: "ucd \<Rightarrow> item list \<Rightarrow> ustring \<Rightarrow> groups option" where
  "search U p [] = match_at U p []"
| "search U p (c # s) =
     (case match_at U p (c # s) of Some g \<Rightarrow> Some g | None \<Rightarrow> search U p s)"

text \<open>\<^verbatim>\<open>m.group(name)\<close>; a name the match does not have raises \<^verbatim>\<open>IndexError\<close>.\<close>

definition group :: "groups \<Rightarrow> string \<Rightarrow> error + ustring" where
  "group g n = (case map_of g n of None \<Rightarrow> Inl IndexError | Some t \<Rightarrow> Inr t)"

text \<open>
  The pattern is compiled from a triple-quoted raw string with no flag, so the line
  break and the eight spaces of indentation before every line of the pattern are
  literals of the pattern.
\<close>

definition indent :: ustring where
  "indent = [10, 32, 32, 32, 32, 32, 32, 32, 32]"

definition p0 :: "item list" where
  "p0 =
    [Plain (Lit indent),
     Named ''sensor'' (Alt [ustr ''S1A'', ustr ''S1B'']), Plain (Lit (ustr ''_'' @ indent)),
     Named ''acquisition_mode'' (Alt [ustr ''IW'', ustr ''SW'', ustr ''SM'']),
     Plain (Lit (ustr ''_GRD'' @ indent)),
     Named ''resolution'' (Alt [ustr ''M'', ustr ''H'']), Plain (Lit (ustr ''_'' @ indent)),
     Named ''processing_level'' (Digits 1), Plain (Lit (ustr ''SDV_'' @ indent)),
     Named ''start_date'' (Digits 8), Plain (Lit (ustr ''T'' @ indent)),
     Named ''start_time'' (Digits 6), Plain (Lit (ustr ''_'' @ indent)),
     Named ''end_date'' (Digits 8), Plain (Lit (ustr ''T'' @ indent)),
     Named ''end_time'' (Digits 6), Plain (Lit (ustr ''_'' @ indent)),
     Named ''absolute_orbit_number'' (Words 6), Plain (Lit (ustr ''_'' @ indent)),
     Named ''mission_data_take_id'' (Words 6), Plain (Lit (ustr ''_'' @ indent)),
     Named ''product_unique_id'' (Words 4), Plain (Lit indent)]"

section \<open>Dates\<close>

record date =
  year :: nat
  month :: nat
  day :: nat

record datetime = date +
  hour :: nat
  minute :: nat
  second :: nat

text \<open>\<^verbatim>\<open>int(s)\<close> on a string of decimal digits, of ASCII or not.\<close>

definition digit_val :: "ucd \<Rightarrow> nat \<Rightarrow> nat" where
  "digit_val U c =
     (if c < 128 then c - 48 else (case decimal U c of None \<Rightarrow> 0 | Some v \<Rightarrow> v))"

definition int_of_digits :: "ucd \<Rightarrow> ustring \<Rightarrow> nat" where
  "int_of_digits U s = foldl (\<lambda>n c. 10 * n + digit_val U c) 0 s"

definition is_leap :: "nat \<Rightarrow> bool" where
  "is_leap y = (y mod 4 = 0 \<and> (y mod 100 \<noteq> 0 \<or> y mod 400 = 0))"

definition days_in_month :: "nat \<Rightarrow> nat \<Rightarrow> nat" where
  "days_in_month y m =
     (if m = 2 then (if is_leap y then 29 else 28)
      else if m \<in> {4, 6, 9, 11} then 30 else 31)"

text \<open>
  \<^verbatim>\<open>datetime.strptime(s, '%Y%m%dT%H%M%S')\<close> of the standard library, on the strings
  \<open>get_date\<close> passes it: eight digits, \<open>T\<close>, six digits.  On such a string the
  directives take four, two, two, two, two and two characters.  The library's own
  patterns are \<^verbatim>\<open>\d\d\d\d\<close> for the year, \<^verbatim>\<open>1[0-2]|0[1-9]\<close> for a month of two
  characters, \<^verbatim>\<open>3[0-1]|[1-2]\d|0[1-9]\<close> for the day, \<^verbatim>\<open>2[0-3]|[0-1]\d\<close> for the hour,
  \<^verbatim>\<open>[0-5]\d\<close> for the minute and \<^verbatim>\<open>6[0-1]|[0-5]\d\<close> for the second: a character the
  pattern names must be that ASCII digit, a \<^verbatim>\<open>\d\<close> is any decimal digit.  The year must
  be at least 1, the day one of the month, the second below 60.  Everything else is a
  \<^verbatim>\<open>ValueError\<close>.
\<close>

definition strptime :: "ucd \<Rightarrow> ustring \<Rightarrow> error + datetime" where
  "strptime U s =
     (if length s = 15 \<and> list_all (is_digit U) (take 8 s) \<and> s ! 8 = 84
         \<and> list_all (is_digit U) (drop 9 s)
         \<and> list_all ascii_digit (take 3 (drop 4 s))
         \<and> (s ! 6 = 49 \<or> s ! 6 = 50 \<or> ascii_digit (s ! 7))
         \<and> ascii_digit (s ! 9) \<and> (s ! 9 = 48 \<or> s ! 9 = 49 \<or> ascii_digit (s ! 10))
         \<and> ascii_digit (s ! 11) \<and> ascii_digit (s ! 13)
      then
        (let y = int_of_digits U (take 4 s);
             m = int_of_digits U (take 2 (drop 4 s));
             d = int_of_digits U (take 2 (drop 6 s));
             H = int_of_digits U (take 2 (drop 9 s));
             M = int_of_digits U (take 2 (drop 11 s));
             S = int_of_digits U (take 2 (drop 13 s))
         in if 1 \<le> y \<and> 1 \<le> m \<and> m \<le> 12 \<and> 1 \<le> d \<and> d \<le> days_in_month y m
               \<and> H \<le> 23 \<and> M \<le> 59 \<and> S \<le> 59
            then Inr \<lparr>year = y, month = m, day = d, hour = H, minute = M, second = S\<rparr>
            else Inl (ValueError Strptime_failed))
      else Inl (ValueError Strptime_failed))"

text \<open>\<^verbatim>\<open>datetime.date()\<close>: the date of a datetime.\<close>

definition date_of :: "datetime \<Rightarrow> date" where
  "date_of t = \<lparr>year = year t, month = month t, day = day t\<rparr>"

section \<open>\<open>get_date\<close>\<close>

text \<open>
  \<open>get_date\<close> returns one date, or the pair (start, end) when \<open>start_only\<close> is false.
\<close>

datatype dates = Start date | StartEnd date date

text \<open>\<^verbatim>\<open>strptime(f"{m.group(d)}T{m.group(t)}", '%Y%m%dT%H%M%S').date()\<close>\<close>

definition parse_group_date :: "ucd \<Rightarrow> groups \<Rightarrow> string \<Rightarrow> string \<Rightarrow> error + date" where
  "parse_group_date U m d t =
     (case group m d of
        Inl e \<Rightarrow> Inl e
      | Inr ds \<Rightarrow>
          (case group m t of
             Inl e \<Rightarrow> Inl e
           | Inr ts \<Rightarrow>
               (case strptime U (ds @ ustr ''T'' @ ts) of
                  Inl e \<Rightarrow> Inl e
                | Inr dt \<Rightarrow> Inr (date_of dt))))"

definition get_date :: "ucd \<Rightarrow> ustring \<Rightarrow> bool \<Rightarrow> error + dates" where
  "get_date U filename start_only =
     (case search U p0 filename of
        Some m \<Rightarrow>
          (case parse_group_date U m ''start_date'' ''start_time'' of
             Inl e \<Rightarrow> Inl e
           | Inr start_d \<Rightarrow>
               if \<not> start_only then
                 (case parse_group_date U m ''end_date'' ''end_time'' of
                    Inl e \<Rightarrow> Inl e
                  | Inr end_d \<Rightarrow> Inr (StartEnd start_d end_d))
               else Inr (Start start_d))
      | None \<Rightarrow> Inl (ValueError Unknown_pattern))"

section \<open>The grammar as documented\<close>

text \<open>
  The product identifier as the docstring's example and the specification write it:
  \<^verbatim>\<open>SENSOR_MODE_GRD{RES}_{LEVEL}SDV_{START8}T{STARTTIME6}_{END8}T{ENDTIME6}_{6}_{6}_{4}\<close>,
  the fields following one another with nothing in between but the separators shown.
  This is the specification's grammar, not a definition of the source.
\<close>

definition documented_grammar :: "item list" where
  "documented_grammar =
    [Named ''sensor'' (Alt [ustr ''S1A'', ustr ''S1B'']), Plain (Lit (ustr ''_'')),
     Named ''acquisition_mode'' (Alt [ustr ''IW'', ustr ''SW'', ustr ''SM'']),
     Plain (Lit (ustr ''_GRD'')),
     Named ''resolution'' (Alt [ustr ''M'', ustr ''H'']), Plain (Lit (ustr ''_'')),
     Named ''processing_level'' (Digits 1), Plain (Lit (ustr ''SDV_'')),
     Named ''start_date'' (Digits 8), Plain (Lit (ustr ''T'')),
     Named ''start_time'' (Digits 6), Plain (Lit (ustr ''_'')),
     Named ''end_date'' (Digits 8), Plain (Lit (ustr ''T'')),
     Named ''end_time'' (Digits 6), Plain (Lit (ustr ''_'')),
     Named ''absolute_orbit_number'' (Words 6), Plain (Lit (ustr ''_'')),
     Named ''mission_data_take_id'' (Words 6), Plain (Lit (ustr ''_'')),
     Named ''product_unique_id'' (Words 4)]"

text \<open>The strings an atom and a sequence of items denote.\<close>

fun atom_lang :: "ucd \<Rightarrow> atom \<Rightarrow> ustring set" where
  "atom_lang U (Lit l) = {l}"
| "atom_lang U (Alt ls) = set ls"
| "atom_lang U (Digits n) = {w. length w = n \<and> list_all (is_digit U) w}"
| "atom_lang U (Words n) = {w. length w = n \<and> list_all (is_word U) w}"

fun atom_of :: "item \<Rightarrow> atom" where
  "atom_of (Plain a) = a"
| "atom_of (Named n a) = a"

fun items_lang :: "ucd \<Rightarrow> item list \<Rightarrow> ustring set" where
  "items_lang U [] = {[]}"
| "items_lang U (i # p) = {u @ v | u v. u \<in> atom_lang U (atom_of i) \<and> v \<in> items_lang U p}"

text \<open>
  \<open>conforms U s\<close>: the whole of \<open>s\<close> is a product identifier of the documented grammar.
  \<open>occurs U p s\<close>: some substring of \<open>s\<close> is a string of \<open>p\<close>.
\<close>

definition conforms :: "ucd \<Rightarrow> ustring \<Rightarrow> bool" where
  "conforms U s = (s \<in> items_lang U documented_grammar)"

definition occurs :: "ucd \<Rightarrow> item list \<Rightarrow> ustring \<Rightarrow> bool" where
  "occurs U p s = (\<exists>pre mid post. s = pre @ mid @ post \<and> mid \<in> items_lang U p)"

section \<open>\<open>ts_extract\<close>: the data\<close>

definition MODES :: "string list" where
  "MODES = [''IW'', ''EW'', ''SM'']"

definition POLARIZATIONS :: "string list" where
  "POLARIZATIONS = [''VV'', ''VH'']"

definition ORBITS :: "string list" where
  "ORBITS = [''ASCENDING'', ''DESCENDING'']"

text \<open>\<^verbatim>\<open>class Orbit(Enum)\<close>, the lookup by value \<^verbatim>\<open>Orbit(v)\<close> and \<^verbatim>\<open>.name\<close>.\<close>

datatype Orbit = ASCENDING | DESCENDING

definition Orbit_of_value :: "int \<Rightarrow> error + Orbit" where
  "Orbit_of_value v =
     (if v = 0 then Inr ASCENDING
      else if v = 1 then Inr DESCENDING
      else Inl (ValueError (Not_a_valid_Orbit v)))"

fun name :: "Orbit \<Rightarrow> string" where
  "name ASCENDING = ''ASCENDING''"
| "name DESCENDING = ''DESCENDING''"

text \<open>
  The \<open>polar\<close> argument is \<^verbatim>\<open>None\<close>, a list, or a value of another type (a string).
\<close>

datatype polar_arg = PolarNone | PolarList "string list" | PolarValue string

text \<open>
  A polygon's coordinates are rings of (longitude, latitude) pairs; a feature is the
  dictionary of dictionaries that \<^verbatim>\<open>feature['geometry']['coordinates']\<close> reads.
\<close>

type_synonym coordinates = "(real \<times> real) list list"

type_synonym feature = "(string \<times> (string \<times> coordinates) list) list"

text \<open>
  The client library builds its objects without contacting the platform; they are
  terms here.  \<open>Point\<close> and \<open>Buffer\<close> keep \<open>lon\<close>, \<open>lat\<close> and \<open>radius\<close> as given
  (\<^verbatim>\<open>None\<close> when unset).
\<close>

datatype geometry =
    Polygon coordinates
  | Point "real option" "real option"
  | Buffer geometry "real option"

datatype reducer = Reducer_mean | Reducer_median | Reducer_max | Reducer_min

text \<open>
  The methods chained on the image collection, in the order of the calls:
  \<^verbatim>\<open>filterDate(start, end)\<close>, \<^verbatim>\<open>filter(ee.Filter.eq(property, value))\<close>,
  \<^verbatim>\<open>filterBounds(geometry)\<close>, \<^verbatim>\<open>select(*bands)\<close>, then either
  \<^verbatim>\<open>map(_reduce_region)\<close>, which is \<^verbatim>\<open>image.reduceRegion(fun, geometry, 10)\<close> on every
  image, or \<^verbatim>\<open>getRegion(geometry, 10)\<close>.
\<close>

datatype operation =
    FilterDate datetime datetime
  | FilterEq string string
  | FilterBounds geometry
  | Select "string list"
  | MapReduceRegion reducer geometry nat
  | GetRegion geometry nat

record query =
  collection :: string
  operations :: "operation list"

text \<open>A record of the output: a dictionary, its keys in insertion order.\<close>

type_synonym 'v row = "(string \<times> 'v) list"

text \<open>
  What the module does not define itself:
  \<^item> the clock, \<^verbatim>\<open>datetime.today()\<close>;
  \<^item> the checks the client library makes of the arguments it is called with, before
    any request: \<open>Polygon_raises c\<close>, \<open>Point_raises lon lat\<close> and \<open>select_raises bands\<close>
    are the exception that \<^verbatim>\<open>ee.Geometry.Polygon(c)\<close>, \<^verbatim>\<open>ee.Geometry.Point(lon, lat)\<close>
    and \<^verbatim>\<open>select(*bands)\<close> raise, \<open>None\<close> when the library accepts the arguments (it
    refuses a point without coordinates and a selection of no band, for instance);
    the other calls of the chain are given a date, a string, a number or an object the
    library built, and build their object;
  \<^item> the platform's answer to \<^verbatim>\<open>getInfo()\<close>, which is the one network request of a call
    and either raises or returns the raw response;
  \<^item> the two helpers \<open>simplify\<close> and \<open>dictify\<close> imported from the package.
\<close>

record ('raw, 'v) world =
  today :: datetime
  Polygon_raises :: "coordinates \<Rightarrow> error option"
  Point_raises :: "real option \<Rightarrow> real option \<Rightarrow> error option"
  select_raises :: "string list \<Rightarrow> error option"
  getInfo :: "query \<Rightarrow> error + 'raw"
  simplify :: "'raw \<Rightarrow> 'v row list"
  dictify :: "'raw \<Rightarrow> 'v row list"

text \<open>
  The module once imported: the default of \<open>end\<close> is the value \<^verbatim>\<open>datetime.today()\<close>
  had when the \<^verbatim>\<open>def\<close> statement ran, since a default is evaluated once, at definition.
\<close>

record module =
  default_end :: datetime

definition import_module :: "('raw, 'v) world \<Rightarrow> module" where
  "import_module w = \<lparr>default_end = today w\<rparr>"

text \<open>
  The arguments of a call.  \<open>end_arg\<close> is \<open>None\<close> when the caller leaves \<open>end\<close> out.
\<close>

record args =
  start :: datetime
  mode :: string
  lon :: "real option"
  lat :: "real option"
  end_arg :: "datetime option"
  radius :: "real option"
  feature :: "feature option"
  polar :: polar_arg
  orbit :: "int option"
  stats :: string

text \<open>A call that gives only \<open>start\<close>: every other argument has its default.\<close>

definition defaults :: "datetime \<Rightarrow> args" where
  "defaults s =
     \<lparr>start = s, mode = ''IW'', lon = None, lat = None, end_arg = None, radius = None,
      feature = None, polar = PolarList POLARIZATIONS, orbit = None, stats = ''mean''\<rparr>"

section \<open>\<open>ts_extract\<close>: the function\<close>

text \<open>The loop over a list \<open>polar\<close>: the first element not in \<open>POLARIZATIONS\<close> raises.\<close>

fun check_polar_list :: "string list \<Rightarrow> error + unit" where
  "check_polar_list [] = Inr ()"
| "check_polar_list (p # ps) =
     (if p \<notin> set POLARIZATIONS
      then Inl (ValueError (Unknown_polarization p POLARIZATIONS))
      else check_polar_list ps)"

definition check_polar :: "polar_arg \<Rightarrow> error + string list" where
  "check_polar p =
     (case p of
        PolarNone \<Rightarrow> Inr POLARIZATIONS
      | PolarList ps \<Rightarrow> (case check_polar_list ps of Inl e \<Rightarrow> Inl e | Inr u \<Rightarrow> Inr ps)
      | PolarValue v \<Rightarrow> Inr [v])"

definition check_orbit :: "int option \<Rightarrow> error + string option" where
  "check_orbit ob =
     (case ob of
        None \<Rightarrow> Inr None
      | Some v \<Rightarrow>
          (if v \<notin> set [0, 1] then Inl (ValueError (Unknown_orbit v ORBITS))
           else (case Orbit_of_value v of
                   Inl e \<Rightarrow> Inl e
                 | Inr ob' \<Rightarrow> Inr (Some (name ob')))))"

definition reducer_of :: "string \<Rightarrow> error + reducer" where
  "reducer_of s =
     (if s = ''mean'' then Inr Reducer_mean
      else if s = ''median'' then Inr Reducer_median
      else if s = ''max'' then Inr Reducer_max
      else if s = ''min'' then Inr Reducer_min
      else Inl (ValueError Unknown_stats))"

text \<open>\<^verbatim>\<open>ee.Geometry.Point(lon, lat)\<close>\<close>

definition point_of :: "('raw, 'v) world \<Rightarrow> args \<Rightarrow> error + geometry" where
  "point_of w a =
     (case Point_raises w (lon a) (lat a) of
        Some e \<Rightarrow> Inl e
      | None \<Rightarrow> Inr (Point (lon a) (lat a)))"

text \<open>\<^verbatim>\<open>ee.Geometry.Polygon(feature['geometry']['coordinates'])\<close>\<close>

definition polygon_of :: "('raw, 'v) world \<Rightarrow> feature \<Rightarrow> error + geometry" where
  "polygon_of w f =
     (case map_of f ''geometry'' of
        None \<Rightarrow> Inl (KeyError ''geometry'')
      | Some g \<Rightarrow>
          (case map_of g ''coordinates'' of
             None \<Rightarrow> Inl (KeyError ''coordinates'')
           | Some c \<Rightarrow>
               (case Polygon_raises w c of
                  Some e \<Rightarrow> Inl e
                | None \<Rightarrow> Inr (Polygon c))))"

text \<open>
  The geometry of the region branch: the feature's polygon when \<open>feature\<close> is set,
  else \<^verbatim>\<open>ee.Geometry.Point(lon, lat).buffer(radius)\<close>.
\<close>

definition region_geometry :: "('raw, 'v) world \<Rightarrow> args \<Rightarrow> error + geometry" where
  "region_geometry w a =
     (case feature a of
        Some f \<Rightarrow> polygon_of w f
      | None \<Rightarrow>
          (case point_of w a of
             Inl e \<Rightarrow> Inl e
           | Inr pt \<Rightarrow> Inr (Buffer pt (radius a))))"

text \<open>
  \<^verbatim>\<open>except ee.EEException as e: raise ValueError("No data found ...") from None\<close>: an
  exception of the platform's type raised in the \<^verbatim>\<open>try\<close> block becomes the
  \<^verbatim>\<open>ValueError\<close>, any other exception passes.
\<close>

definition except_EEException :: "error \<Rightarrow> error" where
  "except_EEException e = (case e of EEException msg \<Rightarrow> ValueError No_data_found | _ \<Rightarrow> e)"

text \<open>
  The \<^verbatim>\<open>try\<close> block: \<^verbatim>\<open>select(*tuple(polar))\<close> is called on the collection, the rest
  of the query is built, and \<^verbatim>\<open>getInfo()\<close> makes the request; a response is handed to
  \<open>post\<close>.  The second component is the list of the requests made.
\<close>

definition run_query ::
  "('raw, 'v) world \<Rightarrow> string list \<Rightarrow> query \<Rightarrow> ('raw \<Rightarrow> 'v row list)
     \<Rightarrow> (error + 'v row list) \<times> query list" where
  "run_query w bands q post =
     (case select_raises w bands of
        Some e \<Rightarrow> (Inl (except_EEException e), [])
      | None \<Rightarrow>
          (case getInfo w q of
             Inl e \<Rightarrow> (Inl (except_EEException e), [q])
           | Inr raw \<Rightarrow> (Inr (post raw), [q])))"

text \<open>\<^verbatim>\<open>d.pop(k, None)\<close>: the dictionary without the key \<open>k\<close>.\<close>

definition pop :: "string \<Rightarrow> 'v row \<Rightarrow> 'v row" where
  "pop k d = filter (\<lambda>kv. fst kv \<noteq> k) d"

definition collection_name :: string where
  "collection_name = ''COPERNICUS/S1_GRD''"

text \<open>
  The collection after the date, mode and orbit filters; \<open>ob\<close> is the orbit's name, or
  \<open>None\<close>.
\<close>

definition sentinel_ic :: "module \<Rightarrow> args \<Rightarrow> string option \<Rightarrow> operation list" where
  "sentinel_ic m a ob =
     [FilterDate (start a) (case end_arg a of None \<Rightarrow> default_end m | Some e \<Rightarrow> e),
      FilterEq ''instrumentMode'' (mode a)]
     @ (case ob of None \<Rightarrow> [] | Some nm \<Rightarrow> [FilterEq ''orbitProperties_pass'' nm])"

text \<open>\<^verbatim>\<open>x is not None\<close>\<close>

fun is_not_None :: "'a option \<Rightarrow> bool" where
  "is_not_None None = False"
| "is_not_None (Some x) = True"

definition ts_extract ::
  "module \<Rightarrow> ('raw, 'v) world \<Rightarrow> args \<Rightarrow> (error + 'v row list) \<times> query list" where
  "ts_extract m w a =
     (if mode a \<notin> set MODES then (Inl (ValueError (Unknown_mode (mode a) MODES)), [])
      else
        (case check_polar (polar a) of
           Inl e \<Rightarrow> (Inl e, [])
         | Inr bands \<Rightarrow>
             (case check_orbit (orbit a) of
                Inl e \<Rightarrow> (Inl e, [])
              | Inr ob \<Rightarrow>
                  (if is_not_None (radius a) \<or> is_not_None (feature a) then
                     (case reducer_of (stats a) of
                        Inl e \<Rightarrow> (Inl e, [])
                      | Inr f \<Rightarrow>
                          (case region_geometry w a of
                             Inl e \<Rightarrow> (Inl e, [])
                           | Inr geom \<Rightarrow>
                               run_query w bands
                                 \<lparr>collection = collection_name,
                                  operations = sentinel_ic m a ob
                                    @ [FilterBounds geom, Select bands,
                                       MapReduceRegion f geom 10]\<rparr>
                                 (simplify w)))
                   else
                     (case point_of w a of
                        Inl e \<Rightarrow> (Inl e, [])
                      | Inr geom \<Rightarrow>
                          run_query w bands
                            \<lparr>collection = collection_name,
                             operations = sentinel_ic m a ob
                               @ [FilterBounds geom, Select bands, GetRegion geom 10]\<rparr>
                            (\<lambda>l. map (pop ''time'') (map (pop ''latitude'')
                                    (map (pop ''longitude'') (dictify w l)))))))))"

section \<open>Observations and concrete inputs\<close>

text \<open>The values of the orbit filters of a query, in the order they were applied.\<close>

definition orbit_filters :: "query \<Rightarrow> string list" where
  "orbit_filters q =
     concat (map (\<lambda>op. case op of
                          FilterEq k v \<Rightarrow> (if k = ''orbitProperties_pass'' then [v] else [])
                        | _ \<Rightarrow> [])
                 (operations q))"

text \<open>
  \<open>others_pass w a\<close>: every check of the call but that of \<open>orbit\<close> passes: the mode and
  the polarizations are valid and the library accepts the bands and the geometry; in
  the region branch \<open>stats\<close> is valid too.
\<close>

definition others_pass :: "('raw, 'v) world \<Rightarrow> args \<Rightarrow> bool" where
  "others_pass w a =
     (mode a \<in> set MODES
      \<and> (case check_polar (polar a) of
            Inl e \<Rightarrow> False
          | Inr bands \<Rightarrow> select_raises w bands = None)
      \<and> (if is_not_None (radius a) \<or> is_not_None (feature a)
          then (case reducer_of (stats a) of Inl e \<Rightarrow> False | Inr f \<Rightarrow> True)
               \<and> (case region_geometry w a of Inl e \<Rightarrow> False | Inr g \<Rightarrow> True)
          else (case point_of w a of Inl e \<Rightarrow> False | Inr g \<Rightarrow> True)))"


text \<open>The example of the docstring of \<open>get_date\<close>.\<close>

definition docstring_example :: ustring where
  "docstring_example =
     ustr ''S1A_IW_GRDH_1SDV_20190105T000740_20190105T000805_025335_02CDC8_E4C2''"





definition t0 :: datetime where
  "t0 = \<lparr>year = 2019, month = 1, day = 1, hour = 0, minute = 0, second = 0\<rparr>"

definition t1 :: datetime where
  "t1 = \<lparr>year = 2019, month = 6, day = 1, hour = 0, minute = 0, second = 0\<rparr>"

text \<open>
  The client library of the examples refuses an empty list of coordinates, a point with
  a coordinate unset and a selection of no band; the examples call it with arguments
  the library accepts.
\<close>

definition refuses_polygon :: "coordinates \<Rightarrow> error option" where
  "refuses_polygon c = (if c = [] then Some (EEException ''Invalid geometry'') else None)"

definition refuses_point :: "real option \<Rightarrow> real option \<Rightarrow> error option" where
  "refuses_point x y =
     (if x = None \<or> y = None then Some (EEException ''Invalid geometry'') else None)"

definition refuses_select :: "string list \<Rightarrow> error option" where
  "refuses_select bands =
     (if bands = [] then Some (TypeError ''select() missing 1 required positional argument'')
      else None)"

text \<open>
  Two worlds for the examples, their raw response already a list of rows: one whose
  platform answers every request with \<open>rows\<close>, one whose request raises \<open>e\<close>.
\<close>

definition example_rows :: "string row list" where
  "example_rows =
     [[(''id'', ''S1A_a''), (''longitude'', ''-37.7''), (''latitude'', ''-4.6''),
       (''time'', ''1546300800000''), (''VV'', ''-8.1''), (''VH'', ''-15.2'')],
      [(''id'', ''S1A_b''), (''longitude'', ''-37.7''), (''latitude'', ''-4.6''),
       (''time'', ''1547337600000''), (''VV'', ''-7.9''), (''VH'', ''-14.8'')]]"

definition answering :: "datetime \<Rightarrow> string row list \<Rightarrow> (string row list, string) world" where
  "answering t rows =
     \<lparr>today = t, Polygon_raises = refuses_polygon, Point_raises = refuses_point,
      select_raises = refuses_select, getInfo = (\<lambda>q. Inr rows),
      simplify = (\<lambda>raw. raw), dictify = (\<lambda>raw. raw)\<rparr>"

definition failing :: "datetime \<Rightarrow> error \<Rightarrow> (string row list, string) world" where
  "failing t e =
     \<lparr>today = t, Polygon_raises = refuses_polygon, Point_raises = refuses_point,
      select_raises = refuses_select, getInfo = (\<lambda>q. Inl e),
      simplify = (\<lambda>raw. raw), dictify = (\<lambda>raw. raw)\<rparr>"

text \<open>
  The point query of the repository's test: \<^verbatim>\<open>lon=-37.7, lat=-4.6\<close>, from 2019-01-01 to
  2019-06-01, everything else by default.
\<close>

definition point_call :: args where
  "point_call = (defaults t0)\<lparr>lon := Some (-37.7), lat := Some (-4.6), end_arg := Some t1\<rparr>"

definition point_query :: query where
  "point_query =
     \<lparr>collection = ''COPERNICUS/S1_GRD'',
      operations =
        [FilterDate t0 t1, FilterEq ''instrumentMode'' ''IW'',
         FilterBounds (Point (Some (-37.7)) (Some (-4.6))), Select [''VV'', ''VH''],
         GetRegion (Point (Some (-37.7)) (Some (-4.6))) 10]\<rparr>"

text \<open>
  A region query for the polarization HH, which the extra-wide swath mode acquires over
  polar regions, and the answer of a platform that has such images.
\<close>

definition hh_rows :: "string row list" where
  "hh_rows = [[(''id'', ''S1A_EW_a''), (''HH'', ''-11.4'')]]"

definition hh_call :: args where
  "hh_call = (defaults t0)\<lparr>mode := ''EW'', lon := Some (-45), lat := Some 70,
                end_arg := Some t1, radius := Some 300, polar := PolarValue ''HH''\<rparr>"

definition hh_query :: query where
  "hh_query =
     \<lparr>collection = ''COPERNICUS/S1_GRD'',
      operations =
        [FilterDate t0 t1, FilterEq ''instrumentMode'' ''EW'',
         FilterBounds (Buffer (Point (Some (-45)) (Some 70)) (Some 300)), Select [''HH''],
         MapReduceRegion Reducer_mean (Buffer (Point (Some (-45)) (Some 70)) (Some 300)) 10]\<rparr>"

text \<open>The world of the examples that answer.\<close>

definition W0 :: "(string row list, string) world" where
  "W0 = answering t0 example_rows"

text \<open>The point query with an orbit filter.\<close>

definition orbit_query :: "string \<Rightarrow> query" where
  "orbit_query nm =
     \<lparr>collection = ''COPERNICUS/S1_GRD'',
      operations =
        [FilterDate t0 t1, FilterEq ''instrumentMode'' ''IW'',
         FilterEq ''orbitProperties_pass'' nm,
         FilterBounds (Point (Some (-37.7)) (Some (-4.6))), Select [''VV'', ''VH''],
         GetRegion (Point (Some (-37.7)) (Some (-4.6))) 10]\<rparr>"

text \<open>The region query of the repository's test: the same point with \<^verbatim>\<open>radius=500\<close>.\<close>

definition region_call :: args where
  "region_call = point_call\<lparr>radius := Some 500\<rparr>"

text \<open>The records of \<open>example_rows\<close> without their longitude, latitude and time.\<close>

definition stripped_rows :: "string row list" where
  "stripped_rows =
     [[(''id'', ''S1A_a''), (''VV'', ''-8.1''), (''VH'', ''-15.2'')],
      [(''id'', ''S1A_b''), (''VV'', ''-7.9''), (''VH'', ''-14.8'')]]"

text \<open>
  A call that leaves \<open>end\<close> out, and the query it should make when \<open>e\<close> is the date of
  the call.
\<close>

definition start18 :: datetime where
  "start18 = \<lparr>year = 2018, month = 1, day = 1, hour = 0, minute = 0, second = 0\<rparr>"

definition open_call :: args where
  "open_call = (defaults start18)\<lparr>lon := Some (-37.7), lat := Some (-4.6)\<rparr>"

definition open_query :: "datetime \<Rightarrow> query" where
  "open_query e =
     \<lparr>collection = ''COPERNICUS/S1_GRD'',
      operations =
        [FilterDate start18 e, FilterEq ''instrumentMode'' ''IW'',
         FilterBounds (Point (Some (-37.7)) (Some (-4.6))), Select [''VV'', ''VH''],
         GetRegion (Point (Some (-37.7)) (Some (-4.6))) 10]\<rparr>"

text \<open>A polygon feature, and the region call with both \<open>radius\<close> and \<open>feature\<close> set.\<close>

definition square :: coordinates where
  "square = [[(-37.8, -4.7), (-37.6, -4.7), (-37.6, -4.5), (-37.8, -4.5), (-37.8, -4.7)]]"

definition square_feature :: feature where
  "square_feature = [(''geometry'', [(''coordinates'', square)])]"

definition both_call :: args where
  "both_call = region_call\<lparr>feature := Some square_feature\<rparr>"

definition polygon_query :: query where
  "polygon_query =
     \<lparr>collection = ''COPERNICUS/S1_GRD'',
      operations =
        [FilterDate t0 t1, FilterEq ''instrumentMode'' ''IW'',
         FilterBounds (Polygon square), Select [''VV'', ''VH''],
         MapReduceRegion Reducer_mean (Polygon square) 10]\<rparr>"

text \<open>
  The region query of the test with an orbit filter, and a feature with no coordinates.
\<close>

definition region_orbit_query :: "string \<Rightarrow> query" where
  "region_orbit_query nm =
     \<lparr>collection = ''COPERNICUS/S1_GRD'',
      operations =
        [FilterDate t0 t1, FilterEq ''instrumentMode'' ''IW'',
         FilterEq ''orbitProperties_pass'' nm,
         FilterBounds (Buffer (Point (Some (-37.7)) (Some (-4.6))) (Some 500)),
         Select [''VV'', ''VH''],
         MapReduceRegion Reducer_mean
           (Buffer (Point (Some (-37.7)) (Some (-4.6))) (Some 500)) 10]\<rparr>"

definition empty_feature :: feature where
  "empty_feature = [(''geometry'', [(''coordinates'', [])])]"

section \<open>The matcher finds exactly the strings of the pattern\<close>

lemma match_lit_iff: "match_lit l s = Some r \<longleftrightarrow> s = l @ r"
proof (induction l s rule: match_lit.induct)
  case (1 s) show ?case by auto
next
  case (2 c l) show ?case by simp
next
  case (3 c l d s) then show ?case by auto
qed

lemma match_class_iff:
  "match_class P n s = Some (m, r) \<longleftrightarrow> s = m @ r \<and> length m = n \<and> list_all P m"
proof (induction P n s arbitrary: m rule: match_class.induct)
  case (1 P s) show ?case by auto
next
  case (2 P n) show ?case by auto
next
  case (3 P n c s)
  show ?case
  proof (cases "P c")
    case False then show ?thesis by (cases m) auto
  next
    case True
    show ?thesis
    proof (cases m)
      case Nil then show ?thesis using True by (auto split: option.splits)
    next
      case (Cons d m')
      then show ?thesis using True 3[OF True, of m'] by (auto split: option.splits)
    qed
  qed
qed

lemma match_lit_None: "match_lit l s = None \<longleftrightarrow> (\<forall>r. s \<noteq> l @ r)"
  by (metis match_lit_iff not_Some_eq)

lemma match_class_None:
  "match_class P n s = None \<longleftrightarrow> (\<forall>m r. \<not> (s = m @ r \<and> length m = n \<and> list_all P m))"
proof
  assume "match_class P n s = None"
  then show "\<forall>m r. \<not> (s = m @ r \<and> length m = n \<and> list_all P m)"
    by (metis match_class_iff option.distinct(1))
next
  assume *: "\<forall>m r. \<not> (s = m @ r \<and> length m = n \<and> list_all P m)"
  show "match_class P n s = None"
  proof (cases "match_class P n s")
    case None then show ?thesis .
  next
    case (Some mr)
    then have "match_class P n s = Some (fst mr, snd mr)" by simp
    then show ?thesis using * match_class_iff by blast
  qed
qed

lemma match_alts_iff: "(m, r) \<in> set (match_alts ls s) \<longleftrightarrow> m \<in> set ls \<and> s = m @ r"
proof (induction ls)
  case Nil show ?case by simp
next
  case (Cons l ls)
  show ?case
  proof (cases "match_lit l s")
    case None
    then have "\<forall>r. s \<noteq> l @ r" using match_lit_None by blast
    then show ?thesis using Cons None by auto
  next
    case (Some r')
    then have "s = l @ r'" using match_lit_iff by blast
    then show ?thesis using Cons Some by auto
  qed
qed

lemma match_class_set:
  "(m, r) \<in> set (case match_class P n s of None \<Rightarrow> [] | Some mr \<Rightarrow> [mr])
   \<longleftrightarrow> s = m @ r \<and> length m = n \<and> list_all P m"
proof (cases "match_class P n s")
  case None
  then have "\<forall>m r. \<not> (s = m @ r \<and> length m = n \<and> list_all P m)"
    using match_class_None by blast
  then show ?thesis using None by simp
next
  case (Some mr)
  obtain m' r' where mr: "mr = (m', r')" by (cases mr)
  with Some have "s = m' @ r' \<and> length m' = n \<and> list_all P m'"
    using match_class_iff by blast
  moreover have "(m, r) = (m', r')" if "s = m @ r \<and> length m = n \<and> list_all P m"
    using that calculation by (metis append_eq_append_conv)
  ultimately show ?thesis using Some mr by auto
qed

lemma match_atom_iff: "(m, r) \<in> set (match_atom U a s) \<longleftrightarrow> m \<in> atom_lang U a \<and> s = m @ r"
proof (cases a)
  case (Lit l) then show ?thesis using match_alts_iff[of m r "[l]" s] by auto
next
  case (Alt ls) then show ?thesis by (simp add: match_alts_iff)
next
  case (Digits n) then show ?thesis using match_class_set[of m r "is_digit U" n s] by auto
next
  case (Words n) then show ?thesis using match_class_set[of m r "is_word U" n s] by auto
qed

lemma match_items_rest:
  "r \<in> snd ` set (match_items U p s g) \<longleftrightarrow> (\<exists>u. u \<in> items_lang U p \<and> s = u @ r)"
proof (induction U p s g rule: match_items.induct)
  case (1 U s g) show ?case by auto
next
  case (2 U a p s g)
  have "r \<in> snd ` set (match_items U (Plain a # p) s g)
        \<longleftrightarrow> (\<exists>mr \<in> set (match_atom U a s). r \<in> snd ` set (match_items U p (snd mr) g))"
    by (auto simp: image_iff)
  also have "\<dots> \<longleftrightarrow> (\<exists>mr \<in> set (match_atom U a s). \<exists>u. u \<in> items_lang U p \<and> snd mr = u @ r)"
    using 2 by blast
  also have "\<dots> \<longleftrightarrow> (\<exists>m t. m \<in> atom_lang U a \<and> s = m @ t \<and> (\<exists>u. u \<in> items_lang U p \<and> t = u @ r))"
    using match_atom_iff[of _ _ U a s] by (metis prod.collapse snd_conv)
  also have "\<dots> \<longleftrightarrow> (\<exists>u. u \<in> items_lang U (Plain a # p) \<and> s = u @ r)"
    by auto metis+
  finally show ?case .
next
  case (3 U n a p s g)
  have "r \<in> snd ` set (match_items U (Named n a # p) s g)
        \<longleftrightarrow> (\<exists>mr \<in> set (match_atom U a s). r \<in> snd ` set (match_items U p (snd mr) (g @ [(n, fst mr)])))"
    by (auto simp: image_iff)
  also have "\<dots> \<longleftrightarrow> (\<exists>mr \<in> set (match_atom U a s). \<exists>u. u \<in> items_lang U p \<and> snd mr = u @ r)"
    using 3 by blast
  also have "\<dots> \<longleftrightarrow> (\<exists>m t. m \<in> atom_lang U a \<and> s = m @ t \<and> (\<exists>u. u \<in> items_lang U p \<and> t = u @ r))"
    using match_atom_iff[of _ _ U a s] by (metis prod.collapse snd_conv)
  also have "\<dots> \<longleftrightarrow> (\<exists>u. u \<in> items_lang U (Named n a # p) \<and> s = u @ r)"
    by auto metis+
  finally show ?case .
qed

lemma match_at_None: "match_at U p s = None \<longleftrightarrow> \<not> (\<exists>u r. u \<in> items_lang U p \<and> s = u @ r)"
proof -
  have "match_at U p s = None \<longleftrightarrow> match_items U p s [] = []"
    by (auto simp: match_at_def split: list.splits)
  also have "\<dots> \<longleftrightarrow> \<not> (\<exists>r. r \<in> snd ` set (match_items U p s []))"
    by (cases "match_items U p s []") auto
  also have "\<dots> \<longleftrightarrow> \<not> (\<exists>u r. u \<in> items_lang U p \<and> s = u @ r)"
    unfolding match_items_rest by blast
  finally show ?thesis .
qed

lemma occurs_Cons:
  "occurs U p (c # s) \<longleftrightarrow> (\<exists>u r. u \<in> items_lang U p \<and> c # s = u @ r) \<or> occurs U p s"
proof
  assume "occurs U p (c # s)"
  then obtain pre mid post where *: "c # s = pre @ mid @ post" "mid \<in> items_lang U p"
    unfolding occurs_def by blast
  show "(\<exists>u r. u \<in> items_lang U p \<and> c # s = u @ r) \<or> occurs U p s"
  proof (cases pre)
    case Nil
    with * show ?thesis by auto
  next
    case (Cons d pre')
    with * have "s = pre' @ mid @ post" by simp
    with * show ?thesis unfolding occurs_def by blast
  qed
next
  assume "(\<exists>u r. u \<in> items_lang U p \<and> c # s = u @ r) \<or> occurs U p s"
  then show "occurs U p (c # s)"
  proof
    assume "\<exists>u r. u \<in> items_lang U p \<and> c # s = u @ r"
    then obtain u r where "u \<in> items_lang U p" "c # s = [] @ u @ r" by auto
    then show ?thesis unfolding occurs_def by blast
  next
    assume "occurs U p s"
    then obtain pre mid post where "s = pre @ mid @ post" "mid \<in> items_lang U p"
      unfolding occurs_def by blast
    then have "c # s = (c # pre) @ mid @ post" "mid \<in> items_lang U p" by auto
    then show ?thesis unfolding occurs_def by blast
  qed
qed

lemma search_None: "search U p s = None \<longleftrightarrow> \<not> occurs U p s"
proof (induction s)
  case Nil
  show ?case by (auto simp: match_at_None occurs_def)
next
  case (Cons c s)
  show ?case
  proof (cases "match_at U p (c # s)")
    case None
    then have "\<not> (\<exists>u r. u \<in> items_lang U p \<and> c # s = u @ r)"
      using match_at_None by blast
    then show ?thesis using None Cons by (simp add: occurs_Cons)
  next
    case (Some g)
    then have "\<exists>u r. u \<in> items_lang U p \<and> c # s = u @ r"
      using match_at_None[of U p "c # s"] by auto
    then show ?thesis using Some by (simp add: occurs_Cons)
  qed
qed

lemma conforms_iff_match:
  "conforms U s \<longleftrightarrow> [] \<in> snd ` set (match_items U documented_grammar s [])"
  unfolding conforms_def match_items_rest by simp


text \<open>
  No string of the documented grammar has a line break, and every string of the
  compiled pattern starts with one.
\<close>

lemma items_lang_chars:
  assumes "\<forall>i \<in> set p. \<forall>u \<in> atom_lang U (atom_of i). c \<notin> set u" and "s \<in> items_lang U p"
  shows "c \<notin> set s"
  using assms by (induction p arbitrary: s) auto

lemma digit_not_newline: "list_all (is_digit U) u \<Longrightarrow> 10 \<notin> set u"
  by (induction u) (auto simp: is_digit_def ascii_digit_def split: if_splits)

lemma word_not_newline: "list_all (is_word U) u \<Longrightarrow> 10 \<notin> set u"
  by (induction u) (auto simp: is_word_def ascii_word_def ascii_digit_def split: if_splits)

lemma documented_no_newline:
  "\<forall>i \<in> set documented_grammar. \<forall>u \<in> atom_lang U (atom_of i). 10 \<notin> set u"
  by (auto simp: documented_grammar_def ustr_def dest: digit_not_newline word_not_newline)

lemma conforms_no_newline: "conforms U s \<Longrightarrow> 10 \<notin> set s"
  unfolding conforms_def using items_lang_chars[OF documented_no_newline] by blast

lemma p0_newline: "mid \<in> items_lang U p0 \<Longrightarrow> 10 \<in> set mid"
proof -
  assume "mid \<in> items_lang U p0"
  then obtain v where "mid = indent @ v"
    unfolding p0_def by (simp only: items_lang.simps atom_of.simps atom_lang.simps) blast
  then show ?thesis by (simp add: indent_def)
qed

lemma occurs_p0_newline: "occurs U p0 s \<Longrightarrow> 10 \<in> set s"
  unfolding occurs_def using p0_newline by auto






section \<open>Facts about \<open>ts_extract\<close>\<close>

lemma is_not_None_iff [simp]: "is_not_None x \<longleftrightarrow> x \<noteq> None"
  by (cases x) simp_all

lemmas ts_defs = ts_extract_def check_polar_def check_orbit_def reducer_of_def
  region_geometry_def polygon_of_def point_of_def run_query_def except_EEException_def
  sentinel_ic_def MODES_def POLARIZATIONS_def ORBITS_def Orbit_of_value_def
  collection_name_def

lemmas example_defs = defaults_def answering_def failing_def import_module_def
  refuses_polygon_def refuses_point_def refuses_select_def

lemma run_query_trace:
  "snd (run_query w bands q post) = [q'] \<longleftrightarrow> q' = q \<and> select_raises w bands = None"
  by (auto simp: run_query_def split: sum.splits option.splits)

lemma run_query_Inl:
  "select_raises w bands = None \<Longrightarrow> getInfo w q = Inl e \<Longrightarrow>
   fst (run_query w bands q post)
   = Inl (case e of EEException msg \<Rightarrow> ValueError No_data_found | _ \<Rightarrow> e)"
  by (simp add: run_query_def except_EEException_def)

lemma run_query_Inr:
  "run_query w bands q post = (Inr out, tr)
   \<longleftrightarrow> select_raises w bands = None \<and> tr = [q]
       \<and> (\<exists>raw. getInfo w q = Inr raw \<and> out = post raw)"
  by (auto simp: run_query_def split: sum.splits option.splits)

text \<open>A call either fails before any request, or ends with its \<^verbatim>\<open>try\<close> block.\<close>

lemma ts_extract_shape:
  "(\<exists>e. ts_extract m w a = (Inl e, [])) \<or>
   (\<exists>bands q post. ts_extract m w a = run_query w bands q post)"
  by (auto simp: ts_extract_def split: sum.splits)

lemma stats_irrelevant:
  "point_of w (a\<lparr>stats := s\<rparr>) = point_of w a"
  "sentinel_ic m (a\<lparr>stats := s\<rparr>) ob = sentinel_ic m a ob"
  by (simp_all add: point_of_def sentinel_ic_def split: option.splits)

lemma radius_irrelevant:
  "sentinel_ic m (a\<lparr>radius := r\<rparr>) ob = sentinel_ic m a ob"
  "feature a = Some f \<Longrightarrow> region_geometry w (a\<lparr>radius := r\<rparr>) = region_geometry w a"
  by (simp_all add: sentinel_ic_def region_geometry_def split: option.splits)

lemma point_call_failing:
  "snd (ts_extract (import_module (failing t0 e)) (failing t0 e) point_call) = [point_query]"
  by (simp add: ts_defs example_defs point_call_def point_query_def)

lemma check_orbit_Inr:
  "check_orbit ob = Inr r \<longleftrightarrow>
     (ob = None \<and> r = None) \<or> (ob = Some 0 \<and> r = Some ''ASCENDING'')
     \<or> (ob = Some 1 \<and> r = Some ''DESCENDING'')"
  by (auto simp: check_orbit_def Orbit_of_value_def split: option.splits)

lemma check_orbit_Inl:
  "check_orbit ob = Inl e \<longleftrightarrow> (\<exists>k. ob = Some k \<and> k \<noteq> 0 \<and> k \<noteq> 1 \<and> e = ValueError (Unknown_orbit k ORBITS))"
  by (auto simp: check_orbit_def Orbit_of_value_def split: option.splits)

lemma check_polar_Inl:
  "check_polar p = Inl e \<Longrightarrow> \<exists>msg. e = ValueError msg"
proof (cases p)
  case (PolarList ps)
  have "check_polar_list ps = Inl e \<Longrightarrow> \<exists>msg. e = ValueError msg" for ps
    by (induction ps) (auto split: if_splits)
  moreover assume "check_polar p = Inl e"
  ultimately show ?thesis using PolarList by (auto simp: check_polar_def split: sum.splits)
qed (auto simp: check_polar_def)

lemma ts_extract_trace_orbit:
  assumes "snd (ts_extract m w a) = [q]"
  shows "\<exists>ob. check_orbit (orbit a) = Inr ob \<and> orbit_filters q = (case ob of None \<Rightarrow> [] | Some nm \<Rightarrow> [nm])"
  using assms
  by (auto simp: ts_extract_def run_query_trace orbit_filters_def sentinel_ic_def
      split: sum.splits if_splits option.splits)

lemma ts_extract_proceeds:
  assumes "others_pass w a" and "check_orbit (orbit a) = Inr ob"
  shows "\<exists>q. snd (ts_extract m w a) = [q]
             \<and> orbit_filters q = (case ob of None \<Rightarrow> [] | Some nm \<Rightarrow> [nm])"
  using assms
  by (auto simp: others_pass_def ts_extract_def run_query_trace orbit_filters_def
      sentinel_ic_def split: sum.splits if_splits option.splits)

lemma point_call_trace:
  "snd (ts_extract (import_module W0) W0 point_call) = [point_query]"
  "snd (ts_extract (import_module W0) W0 (point_call\<lparr>orbit := Some 0\<rparr>)) = [orbit_query ''ASCENDING'']"
  "snd (ts_extract (import_module W0) W0 (point_call\<lparr>orbit := Some 1\<rparr>)) = [orbit_query ''DESCENDING'']"
  by (simp_all add: ts_defs example_defs point_call_def point_query_def orbit_query_def W0_def)

lemma pop_pop_pop:
  "pop ''time'' (pop ''latitude'' (pop ''longitude'' d))
   = filter (\<lambda>kv. fst kv \<notin> {''longitude'', ''latitude'', ''time''}) d"
  by (induction d) (auto simp: pop_def)

lemma map_of_filter_None: "k \<in> K \<Longrightarrow> map_of (filter (\<lambda>kv. fst kv \<notin> K) d) k = None"
  by (induction d) auto

lemma ts_extract_point_Inr:
  assumes "radius a = None" "feature a = None" "ts_extract m w a = (Inr out, tr)"
  shows "\<exists>q raw. tr = [q] \<and> getInfo w q = Inr raw
               \<and> out = map (pop ''time'') (map (pop ''latitude'') (map (pop ''longitude'') (dictify w raw)))"
  using assms by (auto simp: ts_extract_def run_query_Inr split: sum.splits if_splits)

lemma point_call_result:
  "ts_extract (import_module W0) W0 point_call = (Inr stripped_rows, [point_query])"
  by (simp add: ts_defs example_defs point_call_def point_query_def W0_def example_rows_def
      stripped_rows_def pop_def)

section \<open>The claims\<close>

subsection \<open>\<open>get_date\<close>\<close>

text \<open>
  Claim C1 (a string of the documented grammar yields its start date, or the pair of
  its dates).  The code does not do that: the pattern is compiled without the verbose
  flag, so every line break and indentation of its source text must occur in the file
  name, and every string of the documented grammar is refused with
  \<^verbatim>\<open>ValueError('Unknown pattern')\<close>, with \<open>start_only\<close> true or false.  The
  docstring's own example is one of them.
\<close>

theorem get_date_refuses_documented:
  "conforms U s \<Longrightarrow> get_date U s b = Inl (ValueError Unknown_pattern)"
proof -
  assume "conforms U s"
  then have "\<not> occurs U p0 s" using conforms_no_newline occurs_p0_newline by blast
  then have "search U p0 s = None" by (simp add: search_None)
  then show ?thesis by (simp add: get_date_def)
qed

theorem get_date_docstring_example:
  "\<forall>U. conforms U docstring_example
   \<and> get_date U docstring_example True = Inl (ValueError Unknown_pattern)
   \<and> get_date U docstring_example False = Inl (ValueError Unknown_pattern)"
proof
  fix U
  have c: "conforms U docstring_example"
    unfolding conforms_iff_match by code_simp
  show "conforms U docstring_example
   \<and> get_date U docstring_example True = Inl (ValueError Unknown_pattern)
   \<and> get_date U docstring_example False = Inl (ValueError Unknown_pattern)"
    using c get_date_refuses_documented[OF c, of True]
      get_date_refuses_documented[OF c, of False]
    by simp
qed




subsection \<open>\<open>ts_extract\<close>: validation\<close>

text \<open>
  Claim C5: a \<open>mode\<close> outside IW, EW, SM raises the \<^verbatim>\<open>ValueError\<close> that names the mode
  and the allowed list, whatever the other arguments are, and no request is made.
\<close>

theorem ts_extract_unknown_mode:
  "mode a \<notin> {''IW'', ''EW'', ''SM''} \<Longrightarrow>
   ts_extract m w a = (Inl (ValueError (Unknown_mode (mode a) [''IW'', ''EW'', ''SM''])), [])"
  by (simp add: ts_extract_def MODES_def)

theorem ts_extract_unknown_mode_witness:
  "mode ((defaults t0)\<lparr>mode := ''''\<rparr>) \<notin> {''IW'', ''EW'', ''SM''} \<and>
   ts_extract (import_module (answering t0 example_rows)) (answering t0 example_rows)
     ((defaults t0)\<lparr>mode := ''''\<rparr>)
     = (Inl (ValueError (Unknown_mode '''' [''IW'', ''EW'', ''SM''])), [])"
  using ts_extract_unknown_mode[of "(defaults t0)\<lparr>mode := ''''\<rparr>"
      "import_module (answering t0 example_rows)" "answering t0 example_rows"]
  by (simp add: defaults_def)

text \<open>
  Claim C3 (a \<open>polar\<close> with a value outside VV, VH raises, given as a single value or in
  a list).  The code checks the elements of a list only: a single value is wrapped into
  a list unchecked, the request is made with it, and the call returns what the platform
  answers.  The same value in a list is refused before any request.
\<close>

theorem ts_extract_polar_value_unchecked:
  "ts_extract (import_module (answering t0 hh_rows)) (answering t0 hh_rows) hh_call
     = (Inr hh_rows, [hh_query])
   \<and> ts_extract (import_module (answering t0 hh_rows)) (answering t0 hh_rows)
       (hh_call\<lparr>polar := PolarList [''HH'']\<rparr>)
     = (Inl (ValueError (Unknown_polarization ''HH'' [''VV'', ''VH''])), [])"
  by (simp add: ts_defs example_defs hh_call_def hh_query_def)

text \<open>
  Claim C6: with \<open>orbit\<close> unset the query has no orbit filter; code 0 filters on
  ASCENDING and code 1 on DESCENDING; any other code raises a \<^verbatim>\<open>ValueError\<close> before any
  request whatever the other arguments are, and when the mode and the polarizations
  are valid it is the one that names the orbit and the two directions.  No request is
  ever made with another orbit filter, and when every other check of the call passes
  the request is made, in point mode and in region mode, with the filter stated.
\<close>

theorem ts_extract_orbit:
  "(orbit a = None \<longrightarrow> (\<forall>q \<in> set (snd (ts_extract m w a)). orbit_filters q = []))
   \<and> (orbit a = Some 0 \<longrightarrow> (\<forall>q \<in> set (snd (ts_extract m w a)). orbit_filters q = [''ASCENDING'']))
   \<and> (orbit a = Some 1 \<longrightarrow> (\<forall>q \<in> set (snd (ts_extract m w a)). orbit_filters q = [''DESCENDING'']))
   \<and> (\<forall>k. orbit a = Some k \<and> k \<notin> {0, 1} \<longrightarrow>
        (\<exists>msg. ts_extract m w a = (Inl (ValueError msg), [])) \<and>
        (mode a \<in> set MODES \<and> (\<exists>bands. check_polar (polar a) = Inr bands) \<longrightarrow>
           ts_extract m w a
           = (Inl (ValueError (Unknown_orbit k [''ASCENDING'', ''DESCENDING''])), [])))
   \<and> (others_pass w a \<and> orbit a = None \<longrightarrow>
        (\<exists>q. snd (ts_extract m w a) = [q] \<and> orbit_filters q = []))
   \<and> (others_pass w a \<and> orbit a = Some 0 \<longrightarrow>
        (\<exists>q. snd (ts_extract m w a) = [q] \<and> orbit_filters q = [''ASCENDING'']))
   \<and> (others_pass w a \<and> orbit a = Some 1 \<longrightarrow>
        (\<exists>q. snd (ts_extract m w a) = [q] \<and> orbit_filters q = [''DESCENDING'']))"
proof -
  have tr: "orbit_filters q = (case ob of None \<Rightarrow> [] | Some nm \<Rightarrow> [nm])"
    if "q \<in> set (snd (ts_extract m w a))" "check_orbit (orbit a) = Inr ob" for q ob
  proof -
    from ts_extract_shape[of m w a] that(1)
    obtain bands q' post where *: "ts_extract m w a = run_query w bands q' post" by auto
    have "snd (run_query w bands q' post) = [] \<or> snd (run_query w bands q' post) = [q']"
      by (auto simp: run_query_def split: sum.splits option.splits)
    with * that(1) have "snd (ts_extract m w a) = [q]" by auto
    from ts_extract_trace_orbit[OF this] that(2) show ?thesis by auto
  qed
  have bad: "(\<exists>msg. ts_extract m w a = (Inl (ValueError msg), [])) \<and>
        (mode a \<in> set MODES \<and> (\<exists>bands. check_polar (polar a) = Inr bands) \<longrightarrow>
           ts_extract m w a
           = (Inl (ValueError (Unknown_orbit k [''ASCENDING'', ''DESCENDING''])), []))"
    if "orbit a = Some k" "k \<notin> {0, 1}" for k
  proof -
    from that have co: "check_orbit (orbit a) = Inl (ValueError (Unknown_orbit k ORBITS))"
      by (simp add: check_orbit_Inl)
    show ?thesis
    proof (cases "mode a \<in> set MODES")
      case False then show ?thesis by (simp add: ts_extract_def)
    next
      case True
      show ?thesis
      proof (cases "check_polar (polar a)")
        case (Inl e)
        then obtain msg where "e = ValueError msg" using check_polar_Inl by blast
        with True Inl show ?thesis by (simp add: ts_extract_def)
      next
        case (Inr bands)
        with True co show ?thesis by (simp add: ts_extract_def ORBITS_def)
      qed
    qed
  qed
  have go: "\<exists>q. snd (ts_extract m w a) = [q]
                \<and> orbit_filters q = (case ob of None \<Rightarrow> [] | Some nm \<Rightarrow> [nm])"
    if "others_pass w a" "check_orbit (orbit a) = Inr ob" for ob
    using that by (rule ts_extract_proceeds)
  have 1: "orbit a = None \<longrightarrow> (\<forall>q \<in> set (snd (ts_extract m w a)). orbit_filters q = [])"
    using tr[of _ None] by (auto simp: check_orbit_Inr)
  have 2: "orbit a = Some 0 \<longrightarrow>
             (\<forall>q \<in> set (snd (ts_extract m w a)). orbit_filters q = [''ASCENDING''])"
    using tr[of _ "Some ''ASCENDING''"] by (auto simp: check_orbit_Inr)
  have 3: "orbit a = Some 1 \<longrightarrow>
             (\<forall>q \<in> set (snd (ts_extract m w a)). orbit_filters q = [''DESCENDING''])"
    using tr[of _ "Some ''DESCENDING''"] by (auto simp: check_orbit_Inr)
  have 5: "others_pass w a \<and> orbit a = None \<longrightarrow>
        (\<exists>q. snd (ts_extract m w a) = [q] \<and> orbit_filters q = [])"
    using go[of None] by (auto simp: check_orbit_Inr)
  have 6: "others_pass w a \<and> orbit a = Some 0 \<longrightarrow>
        (\<exists>q. snd (ts_extract m w a) = [q] \<and> orbit_filters q = [''ASCENDING''])"
    using go[of "Some ''ASCENDING''"] by (auto simp: check_orbit_Inr)
  have 7: "others_pass w a \<and> orbit a = Some 1 \<longrightarrow>
        (\<exists>q. snd (ts_extract m w a) = [q] \<and> orbit_filters q = [''DESCENDING''])"
    using go[of "Some ''DESCENDING''"] by (auto simp: check_orbit_Inr)
  from 1 2 3 bad 5 6 7 show ?thesis by blast
qed

theorem ts_extract_orbit_witness:
  "orbit point_call = None \<and> others_pass W0 point_call
   \<and> snd (ts_extract (import_module W0) W0 point_call) = [point_query]
   \<and> orbit_filters point_query = []
   \<and> others_pass W0 (point_call\<lparr>orbit := Some 0\<rparr>)
   \<and> snd (ts_extract (import_module W0) W0 (point_call\<lparr>orbit := Some 0\<rparr>))
       = [orbit_query ''ASCENDING'']
   \<and> orbit_filters (orbit_query ''ASCENDING'') = [''ASCENDING'']
   \<and> others_pass W0 (point_call\<lparr>orbit := Some 1\<rparr>)
   \<and> snd (ts_extract (import_module W0) W0 (point_call\<lparr>orbit := Some 1\<rparr>))
       = [orbit_query ''DESCENDING'']
   \<and> orbit_filters (orbit_query ''DESCENDING'') = [''DESCENDING'']
   \<and> others_pass W0 (region_call\<lparr>orbit := Some 0\<rparr>)
   \<and> snd (ts_extract (import_module W0) W0 (region_call\<lparr>orbit := Some 0\<rparr>))
       = [region_orbit_query ''ASCENDING'']
   \<and> orbit_filters (region_orbit_query ''ASCENDING'') = [''ASCENDING'']
   \<and> others_pass W0 (region_call\<lparr>orbit := Some 1\<rparr>)
   \<and> snd (ts_extract (import_module W0) W0 (region_call\<lparr>orbit := Some 1\<rparr>))
       = [region_orbit_query ''DESCENDING'']
   \<and> orbit_filters (region_orbit_query ''DESCENDING'') = [''DESCENDING'']
   \<and> (2::int) \<notin> {0, 1}
   \<and> mode (point_call\<lparr>orbit := Some 2, radius := Some 300\<rparr>) \<in> set MODES
   \<and> check_polar (polar (point_call\<lparr>orbit := Some 2, radius := Some 300\<rparr>)) = Inr [''VV'', ''VH'']
   \<and> ts_extract (import_module W0) W0 (point_call\<lparr>orbit := Some 2, radius := Some 300\<rparr>)
       = (Inl (ValueError (Unknown_orbit 2 [''ASCENDING'', ''DESCENDING''])), [])"
proof -
  have v: "orbit point_call = None" "mode point_call \<in> set MODES"
    "check_polar (polar point_call) = Inr [''VV'', ''VH'']"
    by (simp_all add: point_call_def defaults_def MODES_def check_polar_def POLARIZATIONS_def)
  have p: "others_pass W0 (point_call\<lparr>orbit := ob\<rparr>)"
    "others_pass W0 (region_call\<lparr>orbit := ob\<rparr>)" "others_pass W0 point_call" for ob
    by (simp_all add: others_pass_def ts_defs example_defs region_call_def point_call_def W0_def)
  have r: "snd (ts_extract (import_module W0) W0 (region_call\<lparr>orbit := Some 0\<rparr>))
       = [region_orbit_query ''ASCENDING'']"
    "snd (ts_extract (import_module W0) W0 (region_call\<lparr>orbit := Some 1\<rparr>))
       = [region_orbit_query ''DESCENDING'']"
    by (simp_all add: ts_defs example_defs region_call_def point_call_def W0_def
        region_orbit_query_def)
  show ?thesis
    using ts_extract_orbit[of point_call "import_module W0" W0]
      ts_extract_orbit[of "point_call\<lparr>orbit := Some 0\<rparr>" "import_module W0" W0]
      ts_extract_orbit[of "point_call\<lparr>orbit := Some 1\<rparr>" "import_module W0" W0]
      ts_extract_orbit[of "region_call\<lparr>orbit := Some 0\<rparr>" "import_module W0" W0]
      ts_extract_orbit[of "region_call\<lparr>orbit := Some 1\<rparr>" "import_module W0" W0]
      ts_extract_orbit[of "point_call\<lparr>orbit := Some 2, radius := Some 300\<rparr>" "import_module W0" W0]
    by (simp add: point_call_trace v p r)
qed

text \<open>
  Claim C7: in the region branch (\<open>radius\<close> or \<open>feature\<close> set) a \<open>stats\<close> outside mean,
  median, max, min raises the \<^verbatim>\<open>ValueError\<close> that lists the four reducers, before any
  request; with neither set, the call does not depend on \<open>stats\<close> at all.
\<close>

theorem ts_extract_stats:
  "(mode a \<in> set MODES \<and> (\<exists>bands. check_polar (polar a) = Inr bands)
      \<and> (\<exists>ob. check_orbit (orbit a) = Inr ob)
      \<and> (radius a \<noteq> None \<or> feature a \<noteq> None)
      \<and> stats a \<notin> {''mean'', ''median'', ''max'', ''min''}
    \<longrightarrow> ts_extract m w a = (Inl (ValueError Unknown_stats), []))
   \<and> (radius a = None \<and> feature a = None
    \<longrightarrow> (\<forall>s. ts_extract m w (a\<lparr>stats := s\<rparr>) = ts_extract m w a))"
proof -
  have "ts_extract m w (a\<lparr>stats := s\<rparr>) = ts_extract m w a"
    if "radius a = None" "feature a = None" for s
    using that by (simp add: ts_extract_def stats_irrelevant split: sum.splits)
  moreover have "ts_extract m w a = (Inl (ValueError Unknown_stats), [])"
    if "mode a \<in> set MODES" "check_polar (polar a) = Inr bands" "check_orbit (orbit a) = Inr ob"
      "radius a \<noteq> None \<or> feature a \<noteq> None"
      "stats a \<notin> {''mean'', ''median'', ''max'', ''min''}" for bands ob
    using that by (simp add: ts_extract_def reducer_of_def)
  ultimately show ?thesis by blast
qed

theorem ts_extract_stats_witness:
  "mode (region_call\<lparr>stats := ''mode''\<rparr>) \<in> set MODES
   \<and> check_polar (polar (region_call\<lparr>stats := ''mode''\<rparr>)) = Inr [''VV'', ''VH'']
   \<and> check_orbit (orbit (region_call\<lparr>stats := ''mode''\<rparr>)) = Inr None
   \<and> radius (region_call\<lparr>stats := ''mode''\<rparr>) \<noteq> None
   \<and> stats (region_call\<lparr>stats := ''mode''\<rparr>) \<notin> {''mean'', ''median'', ''max'', ''min''}
   \<and> ts_extract (import_module W0) W0 (region_call\<lparr>stats := ''mode''\<rparr>)
       = (Inl (ValueError Unknown_stats), [])
   \<and> radius point_call = None \<and> feature point_call = None
   \<and> ts_extract (import_module W0) W0 (point_call\<lparr>stats := ''mode''\<rparr>)
       = ts_extract (import_module W0) W0 point_call
   \<and> snd (ts_extract (import_module W0) W0 (point_call\<lparr>stats := ''mode''\<rparr>)) = [point_query]"
proof -
  have v: "mode region_call \<in> set MODES"
    "check_polar (polar region_call) = Inr [''VV'', ''VH'']"
    "check_orbit (orbit region_call) = Inr None"
    "radius region_call = Some 500"
    "radius point_call = None" "feature point_call = None"
    by (simp_all add: region_call_def point_call_def defaults_def MODES_def check_polar_def
        POLARIZATIONS_def check_orbit_def)
  show ?thesis
    using ts_extract_stats[of "region_call\<lparr>stats := ''mode''\<rparr>" "import_module W0" W0]
      ts_extract_stats[of point_call "import_module W0" W0]
    by (simp add: v point_call_trace)
qed

subsection \<open>\<open>ts_extract\<close>: the remote request\<close>

text \<open>
  Claim C2 (only the no-results condition becomes a \<^verbatim>\<open>ValueError\<close>, every other remote
  failure propagates unchanged) fails: a platform exception that reports a time-out has
  the same outcome as one that reports an empty collection, and is not propagated.
\<close>

theorem ts_extract_timeout_translated:
  "ts_extract (import_module (failing t0 (EEException ''Computation timed out.'')))
     (failing t0 (EEException ''Computation timed out.'')) point_call
   = ts_extract (import_module (failing t0 (EEException ''No bands in collection.'')))
     (failing t0 (EEException ''No bands in collection.'')) point_call
   \<and> fst (ts_extract (import_module (failing t0 (EEException ''Computation timed out.'')))
     (failing t0 (EEException ''Computation timed out.'')) point_call)
     = Inl (ValueError No_data_found)"
  by (simp add: ts_defs example_defs point_call_def)

text \<open>
  Claim C2, amended: when the request raises, every exception of the platform's type,
  whatever it reports, becomes the \<^verbatim>\<open>ValueError\<close> that suggests another orbit or other
  coordinates, and the original is discarded; an exception of any other type reaches
  the caller unchanged.
\<close>

theorem ts_extract_remote_failure:
  assumes "snd (ts_extract m w a) = [q]" and "getInfo w q = Inl e"
  shows "fst (ts_extract m w a)
         = Inl (case e of EEException msg \<Rightarrow> ValueError No_data_found | _ \<Rightarrow> e)"
proof -
  from ts_extract_shape[of m w a] assms(1)
  obtain bands q' post where *: "ts_extract m w a = run_query w bands q' post" by auto
  with assms(1) have "q' = q" "select_raises w bands = None"
    by (simp_all add: run_query_trace)
  with * assms(2) show ?thesis by (simp add: run_query_Inl)
qed

theorem ts_extract_remote_failure_witness:
  "snd (ts_extract (import_module (failing t0 (OtherException ''Connection reset'')))
         (failing t0 (OtherException ''Connection reset'')) point_call) = [point_query]
   \<and> getInfo (failing t0 (OtherException ''Connection reset'')) point_query
       = Inl (OtherException ''Connection reset'')
   \<and> fst (ts_extract (import_module (failing t0 (OtherException ''Connection reset'')))
         (failing t0 (OtherException ''Connection reset'')) point_call)
       = Inl (OtherException ''Connection reset'')
   \<and> snd (ts_extract (import_module (failing t0 (EEException ''Computation timed out.'')))
         (failing t0 (EEException ''Computation timed out.'')) point_call) = [point_query]
   \<and> getInfo (failing t0 (EEException ''Computation timed out.'')) point_query
       = Inl (EEException ''Computation timed out.'')
   \<and> fst (ts_extract (import_module (failing t0 (EEException ''Computation timed out.'')))
         (failing t0 (EEException ''Computation timed out.'')) point_call)
       = Inl (ValueError No_data_found)"
proof -
  have a: "getInfo (failing t0 e) point_query = Inl e" for e
    by (simp add: failing_def)
  show ?thesis
    using ts_extract_remote_failure[OF point_call_failing a, of "OtherException ''Connection reset''"]
      ts_extract_remote_failure[OF point_call_failing a, of "EEException ''Computation timed out.''"]
    by (simp add: point_call_failing a)
qed

text \<open>
  Claim C8: in point mode (no \<open>radius\<close>, no \<open>feature\<close>) a call that returns made one
  request, and its output is the flattened response record by record: each record has
  no longitude, latitude or time, and is otherwise the flattened record, its other
  fields unchanged and in their order.
\<close>

theorem ts_extract_point_strips:
  assumes "radius a = None" and "feature a = None" and "ts_extract m w a = (Inr out, tr)"
  shows "\<exists>q raw. tr = [q] \<and> getInfo w q = Inr raw
           \<and> length out = length (dictify w raw)
           \<and> (\<forall>i < length out.
                 map_of (out ! i) ''longitude'' = None
               \<and> map_of (out ! i) ''latitude'' = None
               \<and> map_of (out ! i) ''time'' = None
               \<and> out ! i = filter (\<lambda>kv. fst kv \<notin> {''longitude'', ''latitude'', ''time''})
                              (dictify w raw ! i))"
proof -
  from ts_extract_point_Inr[OF assms]
  obtain q raw where *: "tr = [q]" "getInfo w q = Inr raw"
    "out = map (pop ''time'') (map (pop ''latitude'') (map (pop ''longitude'') (dictify w raw)))"
    by blast
  have out: "out = map (filter (\<lambda>kv. fst kv \<notin> {''longitude'', ''latitude'', ''time''})) (dictify w raw)"
    using *(3) by (simp add: pop_pop_pop comp_def)
  have "length out = length (dictify w raw)" using out by simp
  moreover have "out ! i = filter (\<lambda>kv. fst kv \<notin> {''longitude'', ''latitude'', ''time''})
                              (dictify w raw ! i)" if "i < length out" for i
    using that out by simp
  moreover have "map_of (out ! i) k = None"
    if "i < length out" "k \<in> {''longitude'', ''latitude'', ''time''}" for i k
    using that out map_of_filter_None[of k "{''longitude'', ''latitude'', ''time''}" "dictify w raw ! i"]
    by simp
  ultimately show ?thesis using *(1,2) by blast
qed

theorem ts_extract_point_strips_witness:
  "radius point_call = None \<and> feature point_call = None
   \<and> ts_extract (import_module W0) W0 point_call = (Inr stripped_rows, [point_query])
   \<and> length stripped_rows = 2
   \<and> (\<exists>q raw. [point_query] = [q] \<and> getInfo W0 q = Inr raw
           \<and> length stripped_rows = length (dictify W0 raw)
           \<and> (\<forall>i < length stripped_rows.
                 map_of (stripped_rows ! i) ''longitude'' = None
               \<and> map_of (stripped_rows ! i) ''latitude'' = None
               \<and> map_of (stripped_rows ! i) ''time'' = None
               \<and> stripped_rows ! i = filter (\<lambda>kv. fst kv \<notin> {''longitude'', ''latitude'', ''time''})
                              (dictify W0 raw ! i)))"
proof -
  have v: "radius point_call = None" "feature point_call = None"
    by (simp_all add: point_call_def defaults_def)
  have n: "length stripped_rows = 2" by (simp add: stripped_rows_def)
  from ts_extract_point_strips[OF v point_call_result] v point_call_result n
  show ?thesis by blast
qed

subsection \<open>\<open>ts_extract\<close>: the query\<close>

text \<open>
  Claim C9 (with \<open>end\<close> left out, the interval ends at the date of the call).  The code
  does not do that: the default \<^verbatim>\<open>end = datetime.today()\<close> is evaluated once, when the
  module is imported.  A module imported on 2019-01-01 and called on 2019-06-01 asks for
  the interval that ends on 2019-01-01.
\<close>

theorem ts_extract_end_default_is_import_time:
  "today (answering t0 example_rows) = t0
   \<and> today (answering t1 example_rows) = t1
   \<and> t1 \<noteq> t0
   \<and> end_arg open_call = None
   \<and> snd (ts_extract (import_module (answering t0 example_rows)) (answering t1 example_rows)
           open_call) = [open_query t0]
   \<and> open_query t0 \<noteq> open_query t1"
  by (simp add: ts_defs example_defs open_call_def open_query_def t0_def t1_def)

text \<open>
  Claim C10: with \<open>feature\<close> set, the call does not depend on \<open>radius\<close>, set or not.
  When the other arguments are valid, the geometry is the feature's polygon and nothing
  else: if the library accepts the polygon and the bands, the request is made with the
  polygon for the bounds filter and for the reducer; if the library refuses the polygon
  or the feature lacks a key, that exception is raised and no request is made; if it
  refuses the bands, the exception of the \<^verbatim>\<open>try\<close> block is raised and no request is
  made.
\<close>

theorem ts_extract_feature_over_radius:
  "feature a = Some f \<longrightarrow>
     (\<forall>r. ts_extract m w (a\<lparr>radius := r\<rparr>) = ts_extract m w a)
     \<and> (\<forall>bands ob fn.
          mode a \<in> set MODES \<and> check_polar (polar a) = Inr bands
          \<and> check_orbit (orbit a) = Inr ob \<and> reducer_of (stats a) = Inr fn
          \<longrightarrow> (\<forall>c. polygon_of w f = Inr (Polygon c) \<and> select_raises w bands = None
                 \<longrightarrow> snd (ts_extract m w a)
                     = [\<lparr>collection = collection_name,
                         operations = sentinel_ic m a ob
                           @ [FilterBounds (Polygon c), Select bands,
                              MapReduceRegion fn (Polygon c) 10]\<rparr>])
            \<and> (\<forall>e. polygon_of w f = Inl e \<longrightarrow> ts_extract m w a = (Inl e, []))
            \<and> (\<forall>c e. polygon_of w f = Inr (Polygon c) \<and> select_raises w bands = Some e
                 \<longrightarrow> ts_extract m w a
                     = (Inl (case e of EEException msg \<Rightarrow> ValueError No_data_found | _ \<Rightarrow> e),
                        [])))"
proof
  assume f: "feature a = Some f"
  have 1: "ts_extract m w (a\<lparr>radius := r\<rparr>) = ts_extract m w a" for r
    using f by (simp add: ts_extract_def radius_irrelevant split: sum.splits)
  have 2: "snd (ts_extract m w a)
              = [\<lparr>collection = collection_name,
                  operations = sentinel_ic m a ob
                    @ [FilterBounds (Polygon c), Select bands,
                       MapReduceRegion fn (Polygon c) 10]\<rparr>]"
    if "mode a \<in> set MODES" "check_polar (polar a) = Inr bands"
      "check_orbit (orbit a) = Inr ob" "reducer_of (stats a) = Inr fn"
      "polygon_of w f = Inr (Polygon c)" "select_raises w bands = None" for c bands ob fn
    using f that by (simp add: ts_extract_def region_geometry_def run_query_trace)
  have 3: "ts_extract m w a = (Inl e, [])"
    if "mode a \<in> set MODES" "check_polar (polar a) = Inr bands"
      "check_orbit (orbit a) = Inr ob" "reducer_of (stats a) = Inr fn"
      "polygon_of w f = Inl e" for e bands ob fn
    using f that by (simp add: ts_extract_def region_geometry_def)
  have 4: "ts_extract m w a
             = (Inl (case e of EEException msg \<Rightarrow> ValueError No_data_found | _ \<Rightarrow> e), [])"
    if "mode a \<in> set MODES" "check_polar (polar a) = Inr bands"
      "check_orbit (orbit a) = Inr ob" "reducer_of (stats a) = Inr fn"
      "polygon_of w f = Inr (Polygon c)" "select_raises w bands = Some e" for c e bands ob fn
    using f that
    by (simp add: ts_extract_def region_geometry_def run_query_def except_EEException_def)
  show "(\<forall>r. ts_extract m w (a\<lparr>radius := r\<rparr>) = ts_extract m w a)
     \<and> (\<forall>bands ob fn.
          mode a \<in> set MODES \<and> check_polar (polar a) = Inr bands
          \<and> check_orbit (orbit a) = Inr ob \<and> reducer_of (stats a) = Inr fn
          \<longrightarrow> (\<forall>c. polygon_of w f = Inr (Polygon c) \<and> select_raises w bands = None
                 \<longrightarrow> snd (ts_extract m w a)
                     = [\<lparr>collection = collection_name,
                         operations = sentinel_ic m a ob
                           @ [FilterBounds (Polygon c), Select bands,
                              MapReduceRegion fn (Polygon c) 10]\<rparr>])
            \<and> (\<forall>e. polygon_of w f = Inl e \<longrightarrow> ts_extract m w a = (Inl e, []))
            \<and> (\<forall>c e. polygon_of w f = Inr (Polygon c) \<and> select_raises w bands = Some e
                 \<longrightarrow> ts_extract m w a
                     = (Inl (case e of EEException msg \<Rightarrow> ValueError No_data_found | _ \<Rightarrow> e),
                        [])))"
    using 1 2 3 4 by blast
qed

theorem ts_extract_feature_over_radius_witness:
  "feature both_call = Some square_feature
   \<and> radius both_call = Some 500
   \<and> mode both_call \<in> set MODES
   \<and> check_polar (polar both_call) = Inr [''VV'', ''VH'']
   \<and> check_orbit (orbit both_call) = Inr None
   \<and> reducer_of (stats both_call) = Inr Reducer_mean
   \<and> polygon_of W0 square_feature = Inr (Polygon square)
   \<and> select_raises W0 [''VV'', ''VH''] = None
   \<and> snd (ts_extract (import_module W0) W0 both_call) = [polygon_query]
   \<and> ts_extract (import_module W0) W0 (both_call\<lparr>radius := Some 1\<rparr>)
       = ts_extract (import_module W0) W0 both_call
   \<and> ts_extract (import_module W0) W0 (both_call\<lparr>radius := None\<rparr>)
       = ts_extract (import_module W0) W0 both_call
   \<and> ts_extract (import_module W0) W0 both_call = (Inr example_rows, [polygon_query])
   \<and> polygon_of W0 empty_feature = Inl (EEException ''Invalid geometry'')
   \<and> ts_extract (import_module W0) W0 (both_call\<lparr>feature := Some empty_feature\<rparr>)
       = (Inl (EEException ''Invalid geometry''), [])
   \<and> check_polar (polar (both_call\<lparr>polar := PolarList []\<rparr>)) = Inr []
   \<and> select_raises W0 []
       = Some (TypeError ''select() missing 1 required positional argument'')
   \<and> ts_extract (import_module W0) W0 (both_call\<lparr>polar := PolarList []\<rparr>)
       = (Inl (TypeError ''select() missing 1 required positional argument''), [])"
proof -
  have v: "feature both_call = Some square_feature" "radius both_call = Some 500"
    "mode both_call \<in> set MODES"
    "check_polar (polar both_call) = Inr [''VV'', ''VH'']"
    "check_orbit (orbit both_call) = Inr None"
    "reducer_of (stats both_call) = Inr Reducer_mean"
    "stats both_call = ''mean''" "orbit both_call = None"
    "polygon_of W0 square_feature = Inr (Polygon square)"
    "select_raises W0 [''VV'', ''VH''] = None"
    "polygon_of W0 empty_feature = Inl (EEException ''Invalid geometry'')"
    "check_polar (PolarList []) = Inr []"
    "select_raises W0 [] = Some (TypeError ''select() missing 1 required positional argument'')"
    by (simp_all add: both_call_def region_call_def point_call_def ts_defs example_defs W0_def
        square_feature_def empty_feature_def square_def)
  have q: "\<lparr>collection = collection_name,
            operations = sentinel_ic (import_module W0) both_call None
              @ [FilterBounds (Polygon square), Select [''VV'', ''VH''],
                 MapReduceRegion Reducer_mean (Polygon square) 10]\<rparr> = polygon_query"
    by (simp add: polygon_query_def collection_name_def sentinel_ic_def both_call_def
        region_call_def point_call_def defaults_def)
  have r: "ts_extract (import_module W0) W0 both_call = (Inr example_rows, [polygon_query])"
    by (simp add: ts_defs example_defs both_call_def region_call_def point_call_def
        polygon_query_def square_feature_def square_def W0_def)
  show ?thesis
    using ts_extract_feature_over_radius[of both_call square_feature "import_module W0" W0]
      ts_extract_feature_over_radius[of "both_call\<lparr>feature := Some empty_feature\<rparr>"
        empty_feature "import_module W0" W0]
      ts_extract_feature_over_radius[of "both_call\<lparr>polar := PolarList []\<rparr>"
        square_feature "import_module W0" W0]
      v q r
    by simp
qed

end
